theory Spec2Isabelle
  imports Main "HOL-Library.Word"
begin

section \<open>Configuration values and Go run-time panics\<close>

text \<open>
  The worker embeds \<open>*config.Config\<close> and reads it with \<open>c.Config.Get(key)\<close>, which yields
  an \<open>interface{}\<close>.  The values the code distinguishes are: a string, a
  \<open>map[string]interface{}\<close>, and anything else; \<open>nil\<close> is the answer for an absent key.
\<close>

datatype cvalue = VString string | VMap "(string \<times> cvalue) list" | VOther

text \<open>
  Modelled from the spec: the package \<open>config\<close> is not part of the sources; its boundary is
  \<open>Get(key) -> value|nil\<close>.  A configuration is therefore taken as the lookup function
  itself, \<open>None\<close> standing for \<open>nil\<close>.
\<close>

type_synonym config = "string \<Rightarrow> cvalue option"

text \<open>
  An unchecked type assertion \<open>x.(T)\<close> on a value that is not a \<open>T\<close> (or is \<open>nil\<close>) panics,
  and so does closing a channel twice.  The panic records the key that was read.
\<close>

datatype panic = NotAMap string | NotAString string | CloseOfClosedChannel

definition then_do :: "panic + 'a \<Rightarrow> ('a \<Rightarrow> panic + 'b) \<Rightarrow> panic + 'b" where
  "then_do r f = (case r of Inl p \<Rightarrow> Inl p | Inr x \<Rightarrow> f x)"

text \<open>\<open>v.(string)\<close> in its one-result form, and the \<open>ok\<close> of its two-result form.\<close>

definition assert_string :: "string \<Rightarrow> cvalue option \<Rightarrow> panic + string" where
  "assert_string key v = (case v of Some (VString s) \<Rightarrow> Inr s | _ \<Rightarrow> Inl (NotAString key))"

definition is_string :: "cvalue option \<Rightarrow> bool" where
  "is_string v = (case v of Some (VString s) \<Rightarrow> True | _ \<Rightarrow> False)"

text \<open>\<open>c.Config.Get("connection").(map[string]interface{})\<close>\<close>

definition connection_map :: "config \<Rightarrow> panic + (string \<times> cvalue) list" where
  "connection_map cfg =
     (case cfg ''connection'' of Some (VMap m) \<Rightarrow> Inr m | _ \<Rightarrow> Inl (NotAMap ''connection''))"

section \<open>Accessors\<close>

text \<open>\<open>Name\<close>: \<open>c.Config.Get("name").(string)\<close>\<close>

definition Name :: "config \<Rightarrow> panic + string" where
  "Name cfg = assert_string ''name'' (cfg ''name'')"

text \<open>
  \<open>GetBrokerAddr\<close>: \<open>fmt.Sprintf("%s://%s?timeout=10s", connection["network"].(string),
  connection["address"].(string))\<close>; the arguments are evaluated left to right.
\<close>

definition GetBrokerAddr :: "config \<Rightarrow> panic + string" where
  "GetBrokerAddr cfg =
     then_do (connection_map cfg) (\<lambda>connection.
     then_do (assert_string ''network'' (map_of connection ''network'')) (\<lambda>network.
     then_do (assert_string ''address'' (map_of connection ''address'')) (\<lambda>address.
       Inr (network @ ''://'' @ address @ ''?timeout=10s''))))"

definition GetBrokerCredentials :: "config \<Rightarrow> panic + (string \<times> string)" where
  "GetBrokerCredentials cfg =
     then_do (connection_map cfg) (\<lambda>connection.
     then_do (assert_string ''username'' (map_of connection ''username'')) (\<lambda>username.
     then_do (assert_string ''password'' (map_of connection ''password'')) (\<lambda>password.
       Inr (username, password))))"

definition GetBrokerClientID :: "config \<Rightarrow> panic + string" where
  "GetBrokerClientID cfg =
     then_do (connection_map cfg) (\<lambda>connection.
       assert_string ''clientId'' (map_of connection ''clientId''))"

definition GetBrokerTopicName :: "config \<Rightarrow> panic + string" where
  "GetBrokerTopicName cfg =
     then_do (connection_map cfg) (\<lambda>connection.
       assert_string ''topic'' (map_of connection ''topic''))"

section \<open>Validate\<close>

text \<open>
  One constructor per \<open>fmt.Errorf\<close> of \<open>Validate\<close>, carrying the value the message echoes
  (the connection data, the network and the allow-list, the address, the client id).
\<close>

datatype verror =
    ConnectionMissing
  | NetworkNotSet "(string \<times> cvalue) list"
  | NetworkNotValid string "string list"
  | AddressNotSet "(string \<times> cvalue) list"
  | AddressNotValid string
  | UsernameNotSet "(string \<times> cvalue) list"
  | PasswordNotSet "(string \<times> cvalue) list"
  | ClientIdNotSet string
  | ClientIdTooShort string
  | TopicNotSet "(string \<times> cvalue) list"

text \<open>
  \<open>Validate\<close>, statement by statement.  The allow-list \<open>AvailableConnectionTypes\<close> is declared
  outside the sources and is a parameter; \<open>utils.StringInSlice\<close>, also outside the
  sources, is membership in that list (the spec: "one of a fixed allow-list").  The
  first statement logs the worker name, so \<open>c.Name()\<close> is evaluated first.  The client id is
  read with the one-result assertion (line 227) before the two-result check (line 229).
  \<open>Inr None\<close> is the \<open>nil\<close> error.
\<close>

definition Validate :: "string list \<Rightarrow> config \<Rightarrow> panic + verror option" where
  "Validate AvailableConnectionTypes cfg =
     then_do (Name cfg) (\<lambda>name.
     if cfg ''connection'' = None then Inr (Some ConnectionMissing)
     else
     then_do (connection_map cfg) (\<lambda>data.
     if \<not> is_string (map_of data ''network'') then Inr (Some (NetworkNotSet data))
     else
     then_do (assert_string ''network'' (map_of data ''network'')) (\<lambda>network.
     if network \<notin> set AvailableConnectionTypes
       then Inr (Some (NetworkNotValid network AvailableConnectionTypes))
     else if \<not> is_string (map_of data ''address'') then Inr (Some (AddressNotSet data))
     else
     then_do (assert_string ''address'' (map_of data ''address'')) (\<lambda>address.
     if length address < 5 \<or> CHR '':'' \<notin> set address then Inr (Some (AddressNotValid address))
     else if \<not> is_string (map_of data ''username'') then Inr (Some (UsernameNotSet data))
     else if \<not> is_string (map_of data ''password'') then Inr (Some (PasswordNotSet data))
     else
     then_do (assert_string ''clientId'' (map_of data ''clientId'')) (\<lambda>clientID.
     if \<not> is_string (map_of data ''clientId'') then Inr (Some (ClientIdNotSet clientID))
     else if length clientID < 2 then Inr (Some (ClientIdTooShort clientID))
     else if \<not> is_string (map_of data ''topic'') then Inr (Some (TopicNotSet data))
     else Inr None)))))"

text \<open>Concrete configurations used to exercise the definitions.\<close>

definition good_connection :: "(string \<times> cvalue) list" where
  "good_connection =
     [(''network'', VString ''tcp''), (''address'', VString ''10.0.0.1:1883''),
      (''username'', VString ''''), (''password'', VString ''''),
      (''clientId'', VString ''cl1''), (''topic'', VString ''sensors/1'')]"

definition good_config :: config where
  "good_config = map_of [(''name'', VString ''worker''), (''connection'', VMap good_connection)]"

text \<open>The same block without the \<open>clientId\<close> key.\<close>

definition no_client_id_config :: config where
  "no_client_id_config =
     map_of [(''name'', VString ''worker''),
             (''connection'', VMap
                [(''network'', VString ''tcp''), (''address'', VString ''10.0.0.1:1883''),
                 (''username'', VString ''''), (''password'', VString ''''),
                 (''topic'', VString ''sensors/1'')])]"

section \<open>Effects: log lines and transport calls\<close>

text \<open>
  The logging capability receives a level and, for each call site, a format string with its
  arguments.  One constructor per call site, carrying the arguments of the call.
\<close>

datatype level = LInfo | LWarning | LError

datatype logmsg =
    ValidateValidating string
  | StartStarting string string
  | StartStopSignal string
  | StartRestarting string
  | StartEstablished string string
  | SubscribeAttempt string string int
  | SubscribeFailed
  | SubscribeOk string string
  | StopStopping string
  | StopAlreadyClosed string
  | StopUnsubscribing string string
  | StopUnsubscribeFailed string string string
  | StopDisconnecting string nat

text \<open>
  What an operation does to the outside, in program order: a log line,
  \<open>MQTT.NewClient\<close>, a call of the transport client (\<open>c.conn\<close>), or \<open>time.Sleep\<close> (in
  seconds).
\<close>

datatype action =
    Log level logmsg
  | Call_NewClient
  | Call_Connect
  | Call_IsConnected
  | Call_Subscribe string
  | Call_Unsubscribe string
  | Call_Disconnect nat
  | Call_Sleep nat

section \<open>Subscribe\<close>

text \<open>
  The loop \<open>for i := 0; i <= maxRetryAttempts; i++\<close> of \<open>Subscribe\<close>.  \<open>i\<close> and
  \<open>maxRetryAttempts\<close> are Go \<open>int\<close>s: signed machine integers whose width \<open>'w\<close> the platform
  fixes (32 or 64 bits), compared signed, and \<open>i++\<close> wraps.  The transport is given by the
  error (\<open>None\<close> for \<open>nil\<close>) that its \<open>k\<close>-th \<open>Subscribe\<close> token completes with;
  \<open>token.Wait()\<close> blocks until then and yields \<open>true\<close>.  \<open>calls\<close> counts the transport calls
  made so far, \<open>err\<close> is the local \<open>err\<close>, \<open>trace\<close> the effects so far.  The loop need not
  end, so not returning is the value \<open>None\<close>.
\<close>

partial_function (option) subscribe_loop ::
  "config \<Rightarrow> (nat \<Rightarrow> string option) \<Rightarrow> string \<Rightarrow> 'w::len word \<Rightarrow> 'w word \<Rightarrow> nat \<Rightarrow>
   string option \<Rightarrow> action list \<Rightarrow> (action list \<times> (panic + string option)) option"
where
  "subscribe_loop cfg transport topic maxRetryAttempts i calls err trace =
     (if i \<le>s maxRetryAttempts then
        (case Name cfg of
           Inl p \<Rightarrow> Some (trace, Inl p)
         | Inr name \<Rightarrow>
             (case transport calls of
                Some e \<Rightarrow>
                  subscribe_loop cfg transport topic maxRetryAttempts (i + 1) (Suc calls) (Some e)
                    (trace @ [Log LInfo (SubscribeAttempt topic name (sint i)),
                              Call_Subscribe topic, Log LError SubscribeFailed])
              | None \<Rightarrow>
                  (case GetBrokerTopicName cfg of
                     Inl p \<Rightarrow>
                       Some (trace @ [Log LInfo (SubscribeAttempt topic name (sint i)),
                                      Call_Subscribe topic], Inl p)
                   | Inr t \<Rightarrow>
                       Some (trace @ [Log LInfo (SubscribeAttempt topic name (sint i)),
                                      Call_Subscribe topic, Log LInfo (SubscribeOk name t)],
                             Inr None))))
      else Some (trace, Inr err))"

declare subscribe_loop.simps [code]

definition Subscribe ::
  "config \<Rightarrow> (nat \<Rightarrow> string option) \<Rightarrow> string \<Rightarrow> 'w::len word \<Rightarrow>
   (action list \<times> (panic + string option)) option" where
  "Subscribe cfg transport topic maxRetryAttempts =
     subscribe_loop cfg transport topic maxRetryAttempts 0 0 None []"

text \<open>The number of times the transport's subscribe was invoked.\<close>

definition subscribe_calls :: "action list \<Rightarrow> nat" where
  "subscribe_calls trace = length (filter (\<lambda>a. case a of Call_Subscribe t \<Rightarrow> True | _ \<Rightarrow> False) trace)"

text \<open>Transports for concrete runs: one that always refuses, one that refuses twice.\<close>

definition always_fails :: "nat \<Rightarrow> string option" where
  "always_fails k = Some ''refused''"

definition fails_twice :: "nat \<Rightarrow> string option" where
  "fails_twice k = (if k < 2 then Some ''refused'' else None)"

text \<open>The largest \<open>int\<close> of the platform.\<close>

definition max_int :: "'w::len word" where
  "max_int = word_of_int (2 ^ (LENGTH('w) - 1) - 1)"

text \<open>
  The retry loop on natural numbers, for reasoning: \<open>d\<close> iterations remain, \<open>k\<close> transport
  calls were made, \<open>err\<close> is the local error; the result is the returned error and the
  number of calls made.
\<close>

fun attempts :: "(nat \<Rightarrow> string option) \<Rightarrow> nat \<Rightarrow> nat \<Rightarrow> string option \<Rightarrow> string option \<times> nat" where
  "attempts tr 0 k err = (err, k)"
| "attempts tr (Suc d) k err =
     (case tr k of None \<Rightarrow> (None, Suc k) | Some e \<Rightarrow> attempts tr d (Suc k) (Some e))"

section \<open>Stop\<close>

text \<open>
  \<open>Stop\<close>.  \<open>GracefulShutdownTimeout\<close> is a constant declared outside the sources (it is
  converted with \<open>uint(\<dots>)\<close>, so it is a natural number) and is a parameter.  The transport
  is given by its answer to \<open>IsConnected()\<close> and by the error of the \<open>Unsubscribe\<close> token.
  The result is the trace of effects and either a panic or the returned error.  The
  accessors are functions of the configuration alone, so \<open>c.Name()\<close> and
  \<open>c.GetBrokerTopicName()\<close> are evaluated once here where the source evaluates them
  repeatedly.
\<close>

definition Stop ::
  "nat \<Rightarrow> config \<Rightarrow> bool \<Rightarrow> string option \<Rightarrow> action list \<times> (panic + string option)" where
  "Stop GracefulShutdownTimeout cfg connected unsubscribe_error =
     (case Name cfg of
        Inl p \<Rightarrow> ([], Inl p)
      | Inr name \<Rightarrow>
          if \<not> connected then
            ([Log LWarning (StopStopping name), Call_IsConnected,
              Log LWarning (StopAlreadyClosed name)], Inr None)
          else
            (case GetBrokerTopicName cfg of
               Inl p \<Rightarrow> ([Log LWarning (StopStopping name), Call_IsConnected], Inl p)
             | Inr topic \<Rightarrow>
                 ([Log LWarning (StopStopping name), Call_IsConnected,
                   Log LWarning (StopUnsubscribing name topic), Call_Unsubscribe topic]
                  @ (case unsubscribe_error of
                       None \<Rightarrow> []
                     | Some e \<Rightarrow> [Log LError (StopUnsubscribeFailed topic name e)])
                  @ [Log LWarning (StopDisconnecting name GracefulShutdownTimeout),
                     Call_Disconnect GracefulShutdownTimeout,
                     Call_Sleep GracefulShutdownTimeout],
                  Inr None)))"

text \<open>The trace without its log lines: the transport calls and sleeps, in order.\<close>

definition calls_of :: "action list \<Rightarrow> action list" where
  "calls_of trace = filter (\<lambda>a. case a of Log l m \<Rightarrow> False | _ \<Rightarrow> True) trace"

section \<open>BrokerHandler and the drain queue\<close>

text \<open>An inbound message: \<open>msg.Topic()\<close> and \<open>msg.Payload()\<close>.\<close>

record message =
  msg_topic :: string
  msg_payload :: string

text \<open>
  The effects of the handler: its three log lines and the channel send
  \<open>c.events <- event\<close>.  The type \<open>'e\<close> is \<open>events.Event\<close>, declared outside the sources.
\<close>

datatype 'e handler_action =
    Log_Received string string string
  | Log_DecodeError string
  | Log_EventCreated 'e
  | Chan_Send 'e

text \<open>
  \<open>BrokerHandler\<close>.  \<open>events.NewEvent\<close> is outside the sources and is a parameter: it yields
  an error (\<open>Inl\<close>) or the event.
\<close>

definition BrokerHandler ::
  "config \<Rightarrow> (message \<Rightarrow> string + 'e) \<Rightarrow> message \<Rightarrow> 'e handler_action list \<times> (panic + unit)" where
  "BrokerHandler cfg NewEvent msg =
     (case Name cfg of
        Inl p \<Rightarrow> ([], Inl p)
      | Inr name \<Rightarrow>
          (case NewEvent msg of
             Inl err \<Rightarrow>
               ([Log_Received name (msg_payload msg) (msg_topic msg), Log_DecodeError err], Inr ())
           | Inr event \<Rightarrow>
               ([Log_Received name (msg_payload msg) (msg_topic msg), Log_EventCreated event,
                 Chan_Send event], Inr ())))"

text \<open>
  The drain queue \<open>c.events\<close> is a buffered channel, \<open>make(chan events.Event, concurrency)\<close>:
  a FIFO buffer with a fixed capacity.  A send appends when there is room; otherwise the
  sender blocks (\<open>None\<close>) until a consumer takes an element.
\<close>

record 'e chan =
  buffer :: "'e list"
  capacity :: nat

definition chan_send :: "'e chan \<Rightarrow> 'e \<Rightarrow> 'e chan option" where
  "chan_send ch e =
     (if length (buffer ch) < capacity ch then Some (ch\<lparr>buffer := buffer ch @ [e]\<rparr>) else None)"

text \<open>The channel after the handler's effects, in order; \<open>None\<close> when a send blocks.\<close>

fun deliver :: "'e handler_action list \<Rightarrow> 'e chan \<Rightarrow> 'e chan option" where
  "deliver [] ch = Some ch"
| "deliver (Chan_Send e # as) ch =
     (case chan_send ch e of None \<Rightarrow> None | Some ch' \<Rightarrow> deliver as ch')"
| "deliver (a # as) ch = deliver as ch"

text \<open>The events the handler sends.\<close>

definition sends_of :: "'e handler_action list \<Rightarrow> 'e list" where
  "sends_of trace = concat (map (\<lambda>a. case a of Chan_Send e \<Rightarrow> [e] | _ \<Rightarrow> []) trace)"

text \<open>A decoder for concrete runs: an empty payload does not decode.\<close>

definition decode_nonempty :: "message \<Rightarrow> string + (string \<times> string)" where
  "decode_nonempty msg =
     (if msg_payload msg = [] then Inl ''empty payload''
      else Inr (msg_topic msg, msg_payload msg))"

section \<open>Start: the caller, the supervisor loop and the heartbeat monitor\<close>

text \<open>
  \<open>Start\<close> runs three goroutines that meet on the channels \<open>errors\<close>, \<open>connected\<close>,
  \<open>reload\<close> and \<open>done\<close>: the caller (lines 32--45 and the \<open>select\<close> of lines 98--117),
  the supervisor loop (lines 47--96) and the heartbeat monitor of the current iteration
  (lines 68--83).  Each is modelled by its program point; a transition is one statement
  of one goroutine, or a hand-off on an unbuffered channel, which needs its sender and
  its receiver at once.  What the transport and the clock do is part of the event.
\<close>

text \<open>The two \<open>fmt.Errorf\<close> values of \<open>Start\<close>, with their arguments.\<close>

datatype start_error =
    ConnectFailed string
  | InitialTimeout string string int

text \<open>
  The caller: at the \<open>select\<close> (line 98); blocked in the send \<open>errors <- \<dots>\<close> of the
  timeout branch (line 110); or returned from \<open>Start\<close> with an error or \<open>nil\<close>.
\<close>

datatype caller_pc = C_Select | C_SendTimeout start_error | C_Returned "start_error option"

text \<open>
  The loop: at the top of an iteration (line 49); waiting for the connect token (line 54);
  blocked in the send \<open>errors <- \<dots>\<close> (line 55); at the liveness check (line 59); at
  \<open>c.Subscribe\<close> (line 63); at \<open>close(connected)\<close> (line 66); about to start the monitor
  (line 68); waiting on \<open>reload\<close> (line 88); in the cool-down sleep (line 90).
\<close>

datatype loop_pc =
    L_Top | L_Connect | L_SendError start_error | L_IsConnected | L_Subscribe | L_Close
  | L_Spawn | L_WaitReload | L_Sleep

text \<open>
  The monitor of the current iteration: not started; at its \<open>select\<close> (line 72); blocked
  in \<open>reload <- true\<close> (line 75); returned.  The loop starts the next monitor only after
  it received from \<open>reload\<close>, when the previous one has returned.
\<close>

datatype monitor_pc = M_None | M_Select | M_SendReload | M_Done

record sys =
  caller :: caller_pc
  loop :: loop_pc
  monitor :: monitor_pc
  connected_closed :: bool
  clients :: nat
  sub_results :: "string option list"
  crashed :: "panic option"
  history :: "action list"

text \<open>
  \<open>sub_results\<close> lists what each \<open>c.Subscribe\<close> of line 63 returned (the loop discards it);
  \<open>clients\<close> counts \<open>MQTT.NewClient\<close>; \<open>crashed\<close> is the panic that ended the process (a
  panic in any goroutine ends all of them).
\<close>

datatype event =
    Loop_Begin
  | Connect_Done "string option"
  | Errors_Handoff
  | Loop_IsConnected bool
  | Loop_Subscribe "nat \<Rightarrow> string option"
  | Close_Connected
  | Spawn_Monitor
  | Monitor_Tick bool
  | Monitor_Stop
  | Reload_Handoff
  | Cooldown_Over
  | Caller_Connected
  | Caller_Timeout

text \<open>The arguments \<open>c.Name(), c.GetBrokerAddr()\<close> of a log line or error, left to right.\<close>

definition name_and_addr :: "config \<Rightarrow> panic + (string \<times> string)" where
  "name_and_addr cfg =
     then_do (Name cfg) (\<lambda>name. then_do (GetBrokerAddr cfg) (\<lambda>addr. Inr (name, addr)))"

text \<open>The state in which the caller waits at its \<open>select\<close> and the loop is about to begin.\<close>

definition initial :: sys where
  "initial = \<lparr>caller = C_Select, loop = L_Top, monitor = M_None, connected_closed = False,
              clients = 0, sub_results = [], crashed = None, history = []\<rparr>"

text \<open>
  Lines 32--45, run by the caller before it starts the loop: the options are built from
  the broker address, the client id and the credentials, and the channels are made.
\<close>

definition Start_init :: "config \<Rightarrow> panic + sys" where
  "Start_init cfg =
     then_do (GetBrokerAddr cfg) (\<lambda>addr.
     then_do (GetBrokerClientID cfg) (\<lambda>client_id.
     then_do (GetBrokerCredentials cfg) (\<lambda>credentials. Inr initial)))"

text \<open>
  One transition.  \<open>None\<close>: the event cannot happen in this state.  The constants
  \<open>MaxTopicSubscribeAttempts\<close> and \<open>InitialConnectionTimeout\<close> are declared outside the
  sources and are parameters.

  \<^item> \<open>Loop_Begin\<close>: lines 49--54, the log line, \<open>make(chan bool)\<close>, \<open>MQTT.NewClient\<close>,
    \<open>c.conn.Connect()\<close>.
  \<^item> \<open>Connect_Done r\<close>: the connect token completes with error \<open>r\<close> (line 54).
  \<^item> \<open>Errors_Handoff\<close>: the loop's send of line 55 meets the caller's receive of line 107,
    the only receive on \<open>errors\<close>; the caller returns the error, the loop continues.
  \<^item> \<open>Loop_IsConnected b\<close>: line 59.
  \<^item> \<open>Loop_Subscribe t\<close>: line 63, against a transport \<open>t\<close>; the returned error is dropped.
  \<^item> \<open>Close_Connected\<close>: line 66; closing a closed channel panics.
  \<^item> \<open>Spawn_Monitor\<close>: line 68.
  \<^item> \<open>Monitor_Tick b\<close>: lines 73--77, a tick on which \<open>IsConnected()\<close> is \<open>b\<close>.
  \<^item> \<open>Monitor_Stop\<close>: lines 78--80, the stop signal \<open>done\<close> arrives.
  \<^item> \<open>Reload_Handoff\<close>: the monitor's send of line 75 meets the loop's receive of
    line 88; the loop logs and sleeps two seconds.
  \<^item> \<open>Cooldown_Over\<close>: the sleep of line 90 ends, \<open>break reloadloop\<close>, next iteration.
  \<^item> \<open>Caller_Connected\<close>: the caller's \<open>select\<close> takes \<open><-connected\<close>, possible once the
    channel is closed (lines 99--104, then \<open>return nil\<close>).
  \<^item> \<open>Caller_Timeout\<close>: the caller's \<open>select\<close> takes \<open><-time.After(\<dots>)\<close> and starts the send of
    line 110.
\<close>

fun transition :: "'w::len word \<Rightarrow> int \<Rightarrow> config \<Rightarrow> event \<Rightarrow> sys \<Rightarrow> sys option" where
  "transition maxSub timeout cfg Loop_Begin s =
     (if loop s = L_Top then
        Some (case name_and_addr cfg of
                Inl p \<Rightarrow> s\<lparr>crashed := Some p\<rparr>
              | Inr (name, addr) \<Rightarrow>
                  s\<lparr>loop := L_Connect, clients := Suc (clients s),
                    history := history s @ [Log LInfo (StartStarting name addr),
                                        Call_NewClient, Call_Connect]\<rparr>)
      else None)"
| "transition maxSub timeout cfg (Connect_Done r) s =
     (if loop s = L_Connect then
        Some (case r of
                Some e \<Rightarrow> s\<lparr>loop := L_SendError (ConnectFailed e)\<rparr>
              | None \<Rightarrow> s\<lparr>loop := L_IsConnected\<rparr>)
      else None)"
| "transition maxSub timeout cfg Errors_Handoff s =
     (case loop s of
        L_SendError e \<Rightarrow>
          (if caller s = C_Select then Some (s\<lparr>loop := L_Top, caller := C_Returned (Some e)\<rparr>)
           else None)
      | _ \<Rightarrow> None)"
| "transition maxSub timeout cfg (Loop_IsConnected b) s =
     (if loop s = L_IsConnected then
        Some (s\<lparr>loop := (if b then L_Subscribe else L_Top),
                history := history s @ [Call_IsConnected]\<rparr>)
      else None)"
| "transition maxSub timeout cfg (Loop_Subscribe t) s =
     (if loop s = L_Subscribe then
        (case GetBrokerTopicName cfg of
           Inl p \<Rightarrow> Some (s\<lparr>crashed := Some p\<rparr>)
         | Inr topic \<Rightarrow>
             (case Subscribe cfg t topic maxSub of
                None \<Rightarrow> None
              | Some (tr, Inl p) \<Rightarrow> Some (s\<lparr>crashed := Some p, history := history s @ tr\<rparr>)
              | Some (tr, Inr r) \<Rightarrow>
                  Some (s\<lparr>loop := L_Close, sub_results := sub_results s @ [r],
                          history := history s @ tr\<rparr>)))
      else None)"
| "transition maxSub timeout cfg Close_Connected s =
     (if loop s = L_Close then
        Some (if connected_closed s then s\<lparr>crashed := Some CloseOfClosedChannel\<rparr>
              else s\<lparr>loop := L_Spawn, connected_closed := True\<rparr>)
      else None)"
| "transition maxSub timeout cfg Spawn_Monitor s =
     (if loop s = L_Spawn then Some (s\<lparr>loop := L_WaitReload, monitor := M_Select\<rparr>) else None)"
| "transition maxSub timeout cfg (Monitor_Tick b) s =
     (if monitor s = M_Select then
        Some (s\<lparr>monitor := (if b then M_Select else M_SendReload),
                history := history s @ [Call_IsConnected]\<rparr>)
      else None)"
| "transition maxSub timeout cfg Monitor_Stop s =
     (if monitor s = M_Select then
        Some (case Name cfg of
                Inl p \<Rightarrow> s\<lparr>crashed := Some p\<rparr>
              | Inr name \<Rightarrow>
                  s\<lparr>monitor := M_Done,
                    history := history s @ [Log LWarning (StartStopSignal name)]\<rparr>)
      else None)"
| "transition maxSub timeout cfg Reload_Handoff s =
     (if monitor s = M_SendReload \<and> loop s = L_WaitReload then
        Some (case Name cfg of
                Inl p \<Rightarrow> s\<lparr>monitor := M_Done, crashed := Some p\<rparr>
              | Inr name \<Rightarrow>
                  s\<lparr>monitor := M_Done, loop := L_Sleep,
                    history := history s @ [Log LWarning (StartRestarting name), Call_Sleep 2]\<rparr>)
      else None)"
| "transition maxSub timeout cfg Cooldown_Over s =
     (if loop s = L_Sleep then Some (s\<lparr>loop := L_Top\<rparr>) else None)"
| "transition maxSub timeout cfg Caller_Connected s =
     (if caller s = C_Select \<and> connected_closed s then
        Some (case name_and_addr cfg of
                Inl p \<Rightarrow> s\<lparr>crashed := Some p\<rparr>
              | Inr (name, addr) \<Rightarrow>
                  s\<lparr>caller := C_Returned None,
                    history := history s @ [Log LInfo (StartEstablished name addr)]\<rparr>)
      else None)"
| "transition maxSub timeout cfg Caller_Timeout s =
     (if caller s = C_Select then
        Some (case name_and_addr cfg of
                Inl p \<Rightarrow> s\<lparr>crashed := Some p\<rparr>
              | Inr (name, addr) \<Rightarrow>
                  s\<lparr>caller := C_SendTimeout (InitialTimeout name addr timeout)\<rparr>)
      else None)"

text \<open>Nothing happens after a panic.\<close>

definition step :: "'w::len word \<Rightarrow> int \<Rightarrow> config \<Rightarrow> event \<Rightarrow> sys \<Rightarrow> sys option" where
  "step maxSub timeout cfg ev s =
     (if crashed s = None then transition maxSub timeout cfg ev s else None)"

text \<open>A run: the events of a schedule, one after the other.\<close>

fun run :: "'w::len word \<Rightarrow> int \<Rightarrow> config \<Rightarrow> event list \<Rightarrow> sys \<Rightarrow> sys option" where
  "run maxSub timeout cfg [] s = Some s"
| "run maxSub timeout cfg (ev # evs) s =
     (case step maxSub timeout cfg ev s of
        None \<Rightarrow> None
      | Some s' \<Rightarrow> run maxSub timeout cfg evs s')"

text \<open>A transport whose every subscribe succeeds.\<close>

definition always_succeeds :: "nat \<Rightarrow> string option" where
  "always_succeeds k = None"

text \<open>
  Schedules for concrete runs.  The first handshake, with the transport given for the
  subscribe; a loss of liveness seen by the monitor, followed by the next iteration up to
  its \<open>close(connected)\<close>.
\<close>

definition handshake :: "(nat \<Rightarrow> string option) \<Rightarrow> event list" where
  "handshake t =
     [Loop_Begin, Connect_Done None, Loop_IsConnected True, Loop_Subscribe t, Close_Connected]"

definition reconnect :: "event list" where
  "reconnect =
     [Spawn_Monitor, Monitor_Tick True, Monitor_Tick False, Reload_Handoff, Cooldown_Over]
     @ handshake always_succeeds"

text \<open>The accepted configuration without its \<open>name\<close>.\<close>

definition nameless_config :: config where
  "nameless_config = map_of [(''connection'', VMap good_connection)]"

section \<open>Properties of the accessors and of Validate\<close>

lemma assert_string_Inr: "assert_string k v = Inr s \<longleftrightarrow> v = Some (VString s)"
  by (auto simp: assert_string_def split: option.splits cvalue.splits)

lemma is_string_iff: "is_string v \<longleftrightarrow> (\<exists>s. v = Some (VString s))"
  by (auto simp: is_string_def split: option.splits cvalue.splits)

lemma connection_map_Inr: "connection_map cfg = Inr m \<longleftrightarrow> cfg ''connection'' = Some (VMap m)"
  by (auto simp: connection_map_def split: option.splits cvalue.splits)

lemma then_do_Inr: "then_do r f = Inr y \<longleftrightarrow> (\<exists>x. r = Inr x \<and> f x = Inr y)"
  by (cases r) (simp_all add: then_do_def)

lemma Validate_ok_fields:
  assumes "Validate acts cfg = Inr None"
  shows "\<exists>name data network address username password clientID topic.
           cfg ''name'' = Some (VString name) \<and>
           cfg ''connection'' = Some (VMap data) \<and>
           map_of data ''network'' = Some (VString network) \<and> network \<in> set acts \<and>
           map_of data ''address'' = Some (VString address) \<and>
           5 \<le> length address \<and> CHR '':'' \<in> set address \<and>
           map_of data ''username'' = Some (VString username) \<and>
           map_of data ''password'' = Some (VString password) \<and>
           map_of data ''clientId'' = Some (VString clientID) \<and> 2 \<le> length clientID \<and>
           map_of data ''topic'' = Some (VString topic)"
  using assms unfolding Validate_def Name_def
  by (auto simp: then_do_Inr assert_string_Inr connection_map_Inr is_string_iff
           split: if_splits)

text \<open>
  C8.  For a configuration that \<open>Validate\<close> accepts, with network scheme \<open>S\<close> and address
  \<open>A\<close> in its connection block, \<open>GetBrokerAddr\<close> returns exactly \<open>S://A?timeout=10s\<close>.  The
  accessor is a function of the configuration alone: it takes and returns no connection
  state.
\<close>

theorem GetBrokerAddr_validated:
  assumes "Validate acts cfg = Inr None"
    and "cfg ''connection'' = Some (VMap data)"
    and "map_of data ''network'' = Some (VString S)"
    and "map_of data ''address'' = Some (VString A)"
  shows "GetBrokerAddr cfg = Inr (S @ ''://'' @ A @ ''?timeout=10s'')"
  using assms(2-4)
  by (simp add: GetBrokerAddr_def connection_map_def assert_string_def then_do_def)

lemma Validate_good_config: "Validate [''tcp'', ''ssl'', ''ws''] good_config = Inr None"
  by (simp add: Validate_def Name_def good_config_def good_connection_def connection_map_def
      assert_string_def is_string_def then_do_def)

theorem GetBrokerAddr_validated_witness:
  "Validate [''tcp'', ''ssl'', ''ws''] good_config = Inr None \<and>
   good_config ''connection'' = Some (VMap good_connection) \<and>
   map_of good_connection ''network'' = Some (VString ''tcp'') \<and>
   map_of good_connection ''address'' = Some (VString ''10.0.0.1:1883'') \<and>
   GetBrokerAddr good_config = Inr ''tcp://10.0.0.1:1883?timeout=10s''"
proof -
  have c: "good_config ''connection'' = Some (VMap good_connection)"
    by (simp add: good_config_def)
  have n: "map_of good_connection ''network'' = Some (VString ''tcp'')"
    by (simp add: good_connection_def)
  have a: "map_of good_connection ''address'' = Some (VString ''10.0.0.1:1883'')"
    by (simp add: good_connection_def)
  show ?thesis
    using GetBrokerAddr_validated [OF Validate_good_config c n a] Validate_good_config c n a
    by simp
qed

text \<open>
  C5 (failing input).  On a configuration block that is complete except for the \<open>clientId\<close>
  key, \<open>Validate\<close> does not return the descriptive client-id error: the unchecked assertion
  of line 227 panics before the check of line 229 is reached.
\<close>

theorem Validate_missing_clientId_panics:
  "Validate [''tcp'', ''ssl'', ''ws''] no_client_id_config = Inl (NotAString ''clientId'')"
  by (simp add: Validate_def Name_def no_client_id_config_def connection_map_def
      assert_string_def is_string_def then_do_def)

section \<open>Properties of Subscribe\<close>

lemma sint_succ:
  fixes i :: "'w::len word"
  assumes "sint i < 2 ^ (LENGTH('w) - 1) - 1"
  shows "sint (i + 1) = sint i + 1"
proof -
  have "i + 1 = word_of_int (sint i + 1)"
    by simp
  then have "sint (i + 1) = signed_take_bit (LENGTH('w) - 1) (sint i + 1)"
    by (simp only: sint_sbintrunc')
  also have "\<dots> = sint i + 1"
    using assms sint_ge [of i] by (simp add: signed_take_bit_int_eq_self)
  finally show ?thesis .
qed
lemma sint_max_int: "sint (max_int :: 'w::len word) = 2 ^ (LENGTH('w) - 1) - 1"
proof -
  have "sint (max_int :: 'w word) = signed_take_bit (LENGTH('w) - 1) (2 ^ (LENGTH('w) - 1) - 1)"
    by (simp only: max_int_def sint_sbintrunc')
  also have "\<dots> = 2 ^ (LENGTH('w) - 1) - 1"
    by (rule signed_take_bit_int_eq_self) simp_all
  finally show ?thesis .
qed
lemma sle_max_int: "(i :: 'w::len word) \<le>s max_int"
  using sint_lt [of i] by (simp add: word_sle_eq sint_max_int)

lemma subscribe_calls_append [simp]:
  "subscribe_calls (xs @ ys) = subscribe_calls xs + subscribe_calls ys"
  by (simp add: subscribe_calls_def)

lemma subscribe_calls_simps [simp]:
  "subscribe_calls [] = 0"
  "subscribe_calls (Log l m # xs) = subscribe_calls xs"
  "subscribe_calls (Call_Subscribe t # xs) = Suc (subscribe_calls xs)"
  by (simp_all add: subscribe_calls_def)

lemma subscribe_loop_attempts:
  fixes m i :: "'w::len word"
  assumes cfg: "Name cfg = Inr name" "GetBrokerTopicName cfg = Inr t"
    and m: "m <s max_int"
  shows "sint m + 1 - sint i = int d \<Longrightarrow>
         \<exists>trace'. subscribe_loop cfg tr topic m i k err trace
                    = Some (trace', Inr (fst (attempts tr d k err))) \<and>
                  subscribe_calls trace' + k = subscribe_calls trace + snd (attempts tr d k err)"
proof (induction d arbitrary: i k err trace)
  case 0
  then have "\<not> i \<le>s m" by (simp add: word_sle_eq)
  then show ?case by (subst subscribe_loop.simps) simp
next
  case (Suc d)
  from Suc.prems have le: "i \<le>s m" by (simp add: word_sle_eq)
  from m have "sint m < 2 ^ (LENGTH('w) - 1) - 1"
    by (simp add: word_sless_alt sint_max_int)
  with le have "sint i < 2 ^ (LENGTH('w) - 1) - 1" by (simp add: word_sle_eq)
  then have s: "sint (i + 1) = sint i + 1" by (rule sint_succ)
  show ?case
  proof (cases "tr k")
    case None
    then show ?thesis using le cfg
      by (subst subscribe_loop.simps) simp
  next
    case (Some e)
    from Suc.prems s have "sint m + 1 - sint (i + 1) = int d" by simp
    from Suc.IH [OF this] obtain trace' where
      "subscribe_loop cfg tr topic m (i + 1) (Suc k) (Some e)
         (trace @ [Log LInfo (SubscribeAttempt topic name (sint i)),
                   Call_Subscribe topic, Log LError SubscribeFailed])
        = Some (trace', Inr (fst (attempts tr d (Suc k) (Some e))))"
      "subscribe_calls trace' + Suc k =
         subscribe_calls (trace @ [Log LInfo (SubscribeAttempt topic name (sint i)),
                   Call_Subscribe topic, Log LError SubscribeFailed])
         + snd (attempts tr d (Suc k) (Some e))"
      by blast
    then show ?thesis using le cfg Some
      by (subst subscribe_loop.simps) simp
  qed
qed

lemma attempts_bound: "snd (attempts tr d k err) \<le> k + d"
proof (induction d arbitrary: k err)
  case 0
  show ?case by simp
next
  case (Suc d)
  show ?case
  proof (cases "tr k")
    case None
    then show ?thesis by simp
  next
    case (Some e)
    with Suc.IH [of "Suc k" "Some e"] show ?thesis by simp
  qed
qed

lemma attempts_first_success:
  "j < d \<Longrightarrow> tr (k + j) = None \<Longrightarrow> \<forall>j'<j. tr (k + j') \<noteq> None \<Longrightarrow>
   attempts tr d k err = (None, k + j + 1)"
proof (induction d arbitrary: k err j)
  case 0
  then show ?case by simp
next
  case (Suc d)
  show ?case
  proof (cases j)
    case 0
    with Suc.prems show ?thesis by simp
  next
    case (Suc j0)
    with Suc.prems have "tr k \<noteq> None" by (metis add_0_right zero_less_Suc)
    then obtain e where e: "tr k = Some e" by blast
    have 1: "j0 < d" using Suc.prems Suc by simp
    have 2: "tr (Suc k + j0) = None" using Suc.prems Suc by simp
    have 3: "\<forall>j'<j0. tr (Suc k + j') \<noteq> None"
    proof (intro allI impI)
      fix j' assume "j' < j0"
      then have "Suc j' < j" using Suc by simp
      with Suc.prems(3) have "tr (k + Suc j') \<noteq> None" by blast
      then show "tr (Suc k + j') \<noteq> None" by simp
    qed
    have "attempts tr d (Suc k) (Some e) = (None, Suc k + j0 + 1)"
      using 1 2 3 by (rule Suc.IH)
    with e Suc show ?thesis by simp
  qed
qed

lemma attempts_all_fail:
  "\<forall>j<d. tr (k + j) \<noteq> None \<Longrightarrow>
   attempts tr d k err = (if d = 0 then err else tr (k + d - 1), k + d)"
proof (induction d arbitrary: k err)
  case 0
  then show ?case by simp
next
  case (Suc d)
  from Suc.prems have "tr k \<noteq> None" by (metis add_0_right zero_less_Suc)
  then obtain e where e: "tr k = Some e" by blast
  have "\<forall>j<d. tr (Suc k + j) \<noteq> None"
    using Suc.prems by (metis Suc_less_eq add_Suc_shift)
  from Suc.IH [OF this, of "Some e"] e show ?case by (cases d) auto
qed

text \<open>
  C3 (amended).  On a configuration whose name and topic are strings, for every
  \<open>maxAttempts\<close> with \<open>0 \<le> maxAttempts\<close> below the largest \<open>int\<close>, \<open>Subscribe\<close> returns, having
  invoked the transport's subscribe at most \<open>maxAttempts + 1\<close> times; if attempt \<open>k\<close> is
  the first to succeed it returns \<open>nil\<close> after exactly \<open>k + 1\<close> invocations; if every attempt
  \<open>0..maxAttempts\<close> fails it returns the error of the last one after exactly
  \<open>maxAttempts + 1\<close> invocations.
\<close>

theorem Subscribe_bounded_retry:
  fixes maxAttempts :: "'w::len word"
  assumes "Name cfg = Inr name" and "GetBrokerTopicName cfg = Inr t"
    and "0 \<le>s maxAttempts" and "maxAttempts <s max_int"
  shows "\<exists>trace r. Subscribe cfg tr topic maxAttempts = Some (trace, Inr r) \<and>
           subscribe_calls trace \<le> nat (sint maxAttempts) + 1 \<and>
           (\<forall>k. k \<le> nat (sint maxAttempts) \<and> tr k = None \<and> (\<forall>j<k. tr j \<noteq> None)
                \<longrightarrow> r = None \<and> subscribe_calls trace = k + 1) \<and>
           ((\<forall>k. k \<le> nat (sint maxAttempts) \<longrightarrow> tr k \<noteq> None)
                \<longrightarrow> r = tr (nat (sint maxAttempts)) \<and>
                    subscribe_calls trace = nat (sint maxAttempts) + 1)"
proof -
  let ?d = "Suc (nat (sint maxAttempts))"
  from assms(3) have nonneg: "0 \<le> sint maxAttempts" by (simp add: word_sle_eq)
  then have "sint maxAttempts + 1 - sint (0 :: 'w word) = int ?d" by simp
  from subscribe_loop_attempts [OF assms(1,2,4) this, of tr topic 0 None "[]"]
  obtain trace where run: "Subscribe cfg tr topic maxAttempts
                             = Some (trace, Inr (fst (attempts tr ?d 0 None)))"
    and calls: "subscribe_calls trace = snd (attempts tr ?d 0 None)"
    by (auto simp: Subscribe_def)
  have bound: "subscribe_calls trace \<le> nat (sint maxAttempts) + 1"
    using attempts_bound [of tr ?d 0 None] calls by simp
  have first: "fst (attempts tr ?d 0 None) = None \<and> subscribe_calls trace = k + 1"
    if "k \<le> nat (sint maxAttempts)" "tr k = None" "\<forall>j<k. tr j \<noteq> None" for k
    using attempts_first_success [of k ?d tr 0 None] that calls by simp
  have last: "fst (attempts tr ?d 0 None) = tr (nat (sint maxAttempts)) \<and>
              subscribe_calls trace = nat (sint maxAttempts) + 1"
    if "\<forall>k. k \<le> nat (sint maxAttempts) \<longrightarrow> tr k \<noteq> None"
    using attempts_all_fail [of ?d tr 0 None] that calls by (simp add: less_Suc_eq_le)
  from run bound first last show ?thesis by blast
qed

text \<open>
  C9.  For every configuration, transport and topic, and every negative
  \<open>maxRetryAttempts\<close>, \<open>Subscribe\<close> returns \<open>nil\<close> and its trace of effects is empty: the
  loop body never runs, so the transport's subscribe is not invoked even once (and
  nothing is logged).
\<close>

theorem Subscribe_negative_budget:
  fixes maxRetryAttempts :: "'w::len word"
  assumes "maxRetryAttempts <s 0"
  shows "Subscribe cfg tr topic maxRetryAttempts = Some ([], Inr None)"
proof -
  from assms have "\<not> 0 \<le>s maxRetryAttempts" by (simp add: word_sle_eq word_sless_alt)
  then show ?thesis
    unfolding Subscribe_def by (subst subscribe_loop.simps) simp
qed

lemma subscribe_loop_diverges:
  assumes "subscribe_loop cfg tr topic m i k err trace = Some y"
  shows "\<not> (Name cfg = Inr name \<and> tr = always_fails \<and> m = max_int)"
proof (rule subscribe_loop.raw_induct
    [where P = "\<lambda>cfg tr topic m i k err trace y.
                  \<not> (Name cfg = Inr name \<and> tr = always_fails \<and> m = max_int)", OF _ assms])
  fix f :: "config \<Rightarrow> (nat \<Rightarrow> string option) \<Rightarrow> string \<Rightarrow> 'a word \<Rightarrow> 'a word \<Rightarrow> nat \<Rightarrow>
            string option \<Rightarrow> action list \<Rightarrow> (action list \<times> (panic + string option)) option"
  fix c :: config and t :: "nat \<Rightarrow> string option" and tp :: string and mx j :: "'a word"
    and n :: nat and e :: "string option" and tc :: "action list"
    and r :: "action list \<times> (panic + string option)"
  assume IH: "\<And>c t tp mx j n e tc r. f c t tp mx j n e tc = Some r \<Longrightarrow>
                \<not> (Name c = Inr name \<and> t = always_fails \<and> mx = max_int)"
  assume body: "(if j \<le>s mx then
        (case Name c of
           Inl p \<Rightarrow> Some (tc, Inl p)
         | Inr name \<Rightarrow>
             (case t n of
                Some e \<Rightarrow>
                  f c t tp mx (j + 1) (Suc n) (Some e)
                    (tc @ [Log LInfo (SubscribeAttempt tp name (sint j)),
                              Call_Subscribe tp, Log LError SubscribeFailed])
              | None \<Rightarrow>
                  (case GetBrokerTopicName c of
                     Inl p \<Rightarrow>
                       Some (tc @ [Log LInfo (SubscribeAttempt tp name (sint j)),
                                      Call_Subscribe tp], Inl p)
                   | Inr t \<Rightarrow>
                       Some (tc @ [Log LInfo (SubscribeAttempt tp name (sint j)),
                                      Call_Subscribe tp, Log LInfo (SubscribeOk name t)],
                             Inr None))))
      else Some (tc, Inr e)) = Some r"
  show "\<not> (Name c = Inr name \<and> t = always_fails \<and> mx = max_int)"
  proof
    assume a: "Name c = Inr name \<and> t = always_fails \<and> mx = max_int"
    with body have "f c t tp mx (j + 1) (Suc n) (Some ''refused'')
        (tc @ [Log LInfo (SubscribeAttempt tp name (sint j)),
                  Call_Subscribe tp, Log LError SubscribeFailed]) = Some r"
      by (simp add: sle_max_int always_fails_def)
    from IH [OF this] a show False by simp
  qed
qed

text \<open>
  C3 (counterexample).  With \<open>maxAttempts\<close> the largest 64-bit \<open>int\<close> and a transport that
  refuses every attempt, \<open>i <= maxAttempts\<close> holds for every \<open>i\<close> and \<open>i++\<close> wraps: the loop
  never ends, so the number of invocations is not bounded by \<open>maxAttempts + 1\<close> and no last
  error is returned.
\<close>

theorem Subscribe_max_int_never_returns:
  "Subscribe good_config always_fails ''sensors/1'' (max_int :: 64 word) = None"
proof -
  have n: "Name good_config = Inr ''worker''"
    by (simp add: Name_def good_config_def assert_string_def)
  show ?thesis
    using subscribe_loop_diverges [of good_config always_fails "''sensors/1''" "max_int :: 64 word"
        0 0 None "[]" _ "''worker''"] n
    unfolding Subscribe_def by (cases "subscribe_loop good_config always_fails ''sensors/1'' (max_int :: 64 word) 0 0 None []") auto
qed

lemma Name_good_config: "Name good_config = Inr ''worker''"
  by (simp add: Name_def good_config_def assert_string_def)

lemma GetBrokerTopicName_good_config: "GetBrokerTopicName good_config = Inr ''sensors/1''"
  by (simp add: GetBrokerTopicName_def good_config_def good_connection_def connection_map_def
      assert_string_def then_do_def)

lemma three_in_range: "0 \<le>s (3 :: 64 word) \<and> (3 :: 64 word) <s max_int"
  by (simp add: word_sle_eq word_sless_alt sint_max_int)

lemma fails_twice_run:
  "Subscribe good_config fails_twice ''sensors/1'' (3 :: 64 word) =
     Some ([Log LInfo (SubscribeAttempt ''sensors/1'' ''worker'' 0), Call_Subscribe ''sensors/1'',
            Log LError SubscribeFailed,
            Log LInfo (SubscribeAttempt ''sensors/1'' ''worker'' 1), Call_Subscribe ''sensors/1'',
            Log LError SubscribeFailed,
            Log LInfo (SubscribeAttempt ''sensors/1'' ''worker'' 2), Call_Subscribe ''sensors/1'',
            Log LInfo (SubscribeOk ''worker'' ''sensors/1'')], Inr None)"
  by (simp add: Subscribe_def subscribe_loop.simps Name_good_config GetBrokerTopicName_good_config
      fails_twice_def word_sle_eq)

theorem Subscribe_bounded_retry_witness:
  "Name good_config = Inr ''worker'' \<and> GetBrokerTopicName good_config = Inr ''sensors/1'' \<and>
   0 \<le>s (3 :: 64 word) \<and> (3 :: 64 word) <s max_int \<and>
   (\<exists>trace. Subscribe good_config fails_twice ''sensors/1'' (3 :: 64 word) = Some (trace, Inr None) \<and>
            subscribe_calls trace = 3)"
proof -
  from Subscribe_bounded_retry [OF Name_good_config GetBrokerTopicName_good_config
      three_in_range [THEN conjunct1] three_in_range [THEN conjunct2], of fails_twice "''sensors/1''"]
  obtain trace r where run: "Subscribe good_config fails_twice ''sensors/1'' (3 :: 64 word)
                               = Some (trace, Inr r)"
    and first: "\<forall>k. k \<le> nat (sint (3 :: 64 word)) \<and> fails_twice k = None \<and>
                    (\<forall>j<k. fails_twice j \<noteq> None) \<longrightarrow> r = None \<and> subscribe_calls trace = k + 1"
    by blast
  have "2 \<le> nat (sint (3 :: 64 word)) \<and> fails_twice 2 = None \<and> (\<forall>j<2. fails_twice j \<noteq> None)"
    by (simp add: fails_twice_def)
  with first have "r = None \<and> subscribe_calls trace = 2 + 1" by blast
  with run Name_good_config GetBrokerTopicName_good_config three_in_range
  show ?thesis by simp
qed

theorem Subscribe_negative_budget_witness:
  "(- 1 :: 64 word) <s 0 \<and>
   Subscribe good_config always_fails ''sensors/1'' (- 1 :: 64 word) = Some ([], Inr None)"
proof -
  have neg: "(- 1 :: 64 word) <s 0" by (simp add: word_sless_alt)
  from Subscribe_negative_budget [OF neg, of good_config always_fails "''sensors/1''"] neg
  show ?thesis by simp
qed

section \<open>Properties of Stop\<close>

lemma calls_of_simps [simp]:
  "calls_of [] = []"
  "calls_of (Log l m # xs) = calls_of xs"
  "calls_of (Call_IsConnected # xs) = Call_IsConnected # calls_of xs"
  "calls_of (Call_Unsubscribe t # xs) = Call_Unsubscribe t # calls_of xs"
  "calls_of (Call_Disconnect n # xs) = Call_Disconnect n # calls_of xs"
  "calls_of (Call_Sleep n # xs) = Call_Sleep n # calls_of xs"
  "calls_of (xs @ ys) = calls_of xs @ calls_of ys"
  by (simp_all add: calls_of_def)

text \<open>
  C6.  On a configuration with a string name: when the transport reports not connected,
  \<open>Stop\<close> logs and returns \<open>nil\<close> at once, with no unsubscribe, no disconnect and no sleep.
  When it reports connected (and the topic is a string), \<open>Stop\<close> calls unsubscribe, then
  disconnect with the graceful window, then sleeps for that window, and returns \<open>nil\<close>,
  whatever the unsubscribe token's error; that error, if any, is logged.
\<close>

theorem Stop_shutdown:
  assumes "Name cfg = Inr name"
  shows "Stop G cfg False ue =
           ([Log LWarning (StopStopping name), Call_IsConnected,
             Log LWarning (StopAlreadyClosed name)], Inr None) \<and>
         (GetBrokerTopicName cfg = Inr topic \<longrightarrow>
            snd (Stop G cfg True ue) = Inr None \<and>
            calls_of (fst (Stop G cfg True ue)) =
              [Call_IsConnected, Call_Unsubscribe topic, Call_Disconnect G, Call_Sleep G] \<and>
            (\<forall>e. ue = Some e \<longrightarrow>
               Log LError (StopUnsubscribeFailed topic name e) \<in> set (fst (Stop G cfg True ue))))"
  using assms by (auto simp: Stop_def split: option.splits)

theorem Stop_shutdown_witness:
  "Name good_config = Inr ''worker'' \<and>
   Stop 5 good_config False (Some ''lost'') =
     ([Log LWarning (StopStopping ''worker''), Call_IsConnected,
       Log LWarning (StopAlreadyClosed ''worker'')], Inr None) \<and>
   GetBrokerTopicName good_config = Inr ''sensors/1'' \<and>
   snd (Stop 5 good_config True (Some ''lost'')) = Inr None \<and>
   calls_of (fst (Stop 5 good_config True (Some ''lost''))) =
     [Call_IsConnected, Call_Unsubscribe ''sensors/1'', Call_Disconnect 5, Call_Sleep 5] \<and>
   Log LError (StopUnsubscribeFailed ''sensors/1'' ''worker'' ''lost'')
     \<in> set (fst (Stop 5 good_config True (Some ''lost'')))"
  using Stop_shutdown [OF Name_good_config, of 5 "Some ''lost''" "''sensors/1''"]
    Name_good_config GetBrokerTopicName_good_config
  by simp

section \<open>Properties of BrokerHandler\<close>

text \<open>
  C7.  On a configuration with a string name, for every inbound message: when decoding
  succeeds the handler performs exactly one channel send, of the decoded event, so the
  drain queue gains exactly that event at its end (when the buffer is full the send
  blocks, holding the event); when decoding fails the handler logs the error and returns
  with no send, leaving the drain queue unchanged.
\<close>

theorem BrokerHandler_enqueue_or_drop:
  assumes "Name cfg = Inr name"
  shows "(\<forall>event. NewEvent msg = Inr event \<longrightarrow>
            snd (BrokerHandler cfg NewEvent msg) = Inr () \<and>
            sends_of (fst (BrokerHandler cfg NewEvent msg)) = [event] \<and>
            deliver (fst (BrokerHandler cfg NewEvent msg)) ch = chan_send ch event \<and>
            (length (buffer ch) < capacity ch \<longrightarrow>
               deliver (fst (BrokerHandler cfg NewEvent msg)) ch
                 = Some (ch\<lparr>buffer := buffer ch @ [event]\<rparr>))) \<and>
         (\<forall>err. NewEvent msg = Inl err \<longrightarrow>
            BrokerHandler cfg NewEvent msg =
              ([Log_Received name (msg_payload msg) (msg_topic msg), Log_DecodeError err], Inr ()) \<and>
            sends_of (fst (BrokerHandler cfg NewEvent msg)) = [] \<and>
            deliver (fst (BrokerHandler cfg NewEvent msg)) ch = Some ch)"
  using assms
  by (auto simp: BrokerHandler_def sends_of_def chan_send_def split: option.splits)

lemma decode_nonempty_ok:
  "decode_nonempty \<lparr>msg_topic = ''sensors/1'', msg_payload = ''21.5''\<rparr>
     = Inr (''sensors/1'', ''21.5'')"
  by (simp add: decode_nonempty_def)

lemma decode_nonempty_fails:
  "decode_nonempty \<lparr>msg_topic = ''sensors/1'', msg_payload = []\<rparr> = Inl ''empty payload''"
  by (simp add: decode_nonempty_def)

theorem BrokerHandler_enqueue_or_drop_witness:
  "Name good_config = Inr ''worker'' \<and>
   decode_nonempty \<lparr>msg_topic = ''sensors/1'', msg_payload = ''21.5''\<rparr>
     = Inr (''sensors/1'', ''21.5'') \<and>
   deliver (fst (BrokerHandler good_config decode_nonempty
                   \<lparr>msg_topic = ''sensors/1'', msg_payload = ''21.5''\<rparr>))
           \<lparr>buffer = [(''sensors/0'', ''7'')], capacity = 4\<rparr>
     = Some \<lparr>buffer = [(''sensors/0'', ''7''), (''sensors/1'', ''21.5'')], capacity = 4\<rparr> \<and>
   decode_nonempty \<lparr>msg_topic = ''sensors/1'', msg_payload = []\<rparr> = Inl ''empty payload'' \<and>
   deliver (fst (BrokerHandler good_config decode_nonempty
                   \<lparr>msg_topic = ''sensors/1'', msg_payload = []\<rparr>))
           \<lparr>buffer = [(''sensors/0'', ''7'')], capacity = 4\<rparr>
     = Some \<lparr>buffer = [(''sensors/0'', ''7'')], capacity = 4\<rparr>"
proof -
  let ?ch = "\<lparr>buffer = [(''sensors/0'', ''7'')], capacity = 4\<rparr> :: (string \<times> string) chan"
  have room: "length (buffer ?ch) < capacity ?ch" by simp
  have upd: "?ch\<lparr>buffer := buffer ?ch @ [(''sensors/1'', ''21.5'')]\<rparr>
               = \<lparr>buffer = [(''sensors/0'', ''7''), (''sensors/1'', ''21.5'')], capacity = 4\<rparr>"
    by simp
  from BrokerHandler_enqueue_or_drop [OF Name_good_config, of decode_nonempty
      "\<lparr>msg_topic = ''sensors/1'', msg_payload = ''21.5''\<rparr>" ?ch]
    decode_nonempty_ok room
  have "deliver (fst (BrokerHandler good_config decode_nonempty
                   \<lparr>msg_topic = ''sensors/1'', msg_payload = ''21.5''\<rparr>)) ?ch
     = Some (?ch\<lparr>buffer := buffer ?ch @ [(''sensors/1'', ''21.5'')]\<rparr>)"
    by blast
  then have ok: "deliver (fst (BrokerHandler good_config decode_nonempty
                   \<lparr>msg_topic = ''sensors/1'', msg_payload = ''21.5''\<rparr>)) ?ch
     = Some \<lparr>buffer = [(''sensors/0'', ''7''), (''sensors/1'', ''21.5'')], capacity = 4\<rparr>"
    by (simp only: upd)
  from BrokerHandler_enqueue_or_drop [OF Name_good_config, of decode_nonempty
      "\<lparr>msg_topic = ''sensors/1'', msg_payload = []\<rparr>" ?ch]
    decode_nonempty_fails
  have drop: "deliver (fst (BrokerHandler good_config decode_nonempty
                   \<lparr>msg_topic = ''sensors/1'', msg_payload = []\<rparr>)) ?ch = Some ?ch"
    by blast
  from Name_good_config decode_nonempty_ok ok decode_nonempty_fails drop
  show ?thesis by (intro conjI)
qed

section \<open>Properties of Start\<close>

lemma always_fails_run:
  "Subscribe good_config always_fails ''sensors/1'' (3 :: 64 word) =
     Some ([Log LInfo (SubscribeAttempt ''sensors/1'' ''worker'' 0), Call_Subscribe ''sensors/1'',
            Log LError SubscribeFailed,
            Log LInfo (SubscribeAttempt ''sensors/1'' ''worker'' 1), Call_Subscribe ''sensors/1'',
            Log LError SubscribeFailed,
            Log LInfo (SubscribeAttempt ''sensors/1'' ''worker'' 2), Call_Subscribe ''sensors/1'',
            Log LError SubscribeFailed,
            Log LInfo (SubscribeAttempt ''sensors/1'' ''worker'' 3), Call_Subscribe ''sensors/1'',
            Log LError SubscribeFailed], Inr (Some ''refused''))"
  by (simp add: Subscribe_def subscribe_loop.simps Name_good_config GetBrokerTopicName_good_config
      always_fails_def word_sle_eq)

lemma always_succeeds_run:
  "Subscribe good_config always_succeeds ''sensors/1'' (3 :: 64 word) =
     Some ([Log LInfo (SubscribeAttempt ''sensors/1'' ''worker'' 0), Call_Subscribe ''sensors/1'',
            Log LInfo (SubscribeOk ''worker'' ''sensors/1'')], Inr None)"
  by (simp add: Subscribe_def subscribe_loop.simps Name_good_config GetBrokerTopicName_good_config
      always_succeeds_def word_sle_eq)

lemma GetBrokerAddr_good_config:
  "GetBrokerAddr good_config = Inr ''tcp://10.0.0.1:1883?timeout=10s''"
  by (simp add: GetBrokerAddr_def good_config_def good_connection_def connection_map_def
      assert_string_def then_do_def)

lemma name_and_addr_good_config:
  "name_and_addr good_config = Inr (''worker'', ''tcp://10.0.0.1:1883?timeout=10s'')"
  by (simp add: name_and_addr_def Name_good_config GetBrokerAddr_good_config then_do_def)

lemma GetBrokerClientID_good_config: "GetBrokerClientID good_config = Inr ''cl1''"
  by (simp add: GetBrokerClientID_def good_config_def good_connection_def connection_map_def
      assert_string_def then_do_def)

lemma GetBrokerCredentials_good_config: "GetBrokerCredentials good_config = Inr ([], [])"
  by (simp add: GetBrokerCredentials_def good_config_def good_connection_def connection_map_def
      assert_string_def then_do_def)

lemma Start_init_good_config: "Start_init good_config = Inr initial"
  by (simp add: Start_init_def GetBrokerAddr_good_config GetBrokerClientID_good_config
      GetBrokerCredentials_good_config then_do_def)

text \<open>
  C1 (failing input).  On the accepted configuration, with a budget of three retries and
  a transport whose connect succeeds and which reports connected but refuses every
  subscribe: the loop connects, \<open>Subscribe\<close> returns the last error, the loop drops it and
  closes \<open>connected\<close>, and the caller's \<open>select\<close> returns \<open>nil\<close>.  \<open>Start\<close> has returned success
  although the initial \<open>Subscribe\<close> returned an error.
\<close>

theorem Start_success_after_failed_subscribe:
  "Start_init good_config = Inr initial \<and>
   map_option caller
     (run (3 :: 64 word) 10 good_config (handshake always_fails @ [Caller_Connected]) initial)
     = Some (C_Returned None) \<and>
   map_option sub_results
     (run (3 :: 64 word) 10 good_config (handshake always_fails @ [Caller_Connected]) initial)
     = Some [Some ''refused'']"
  by (simp add: Start_init_good_config handshake_def step_def initial_def
      name_and_addr_good_config GetBrokerTopicName_good_config always_fails_run)

text \<open>
  What does hold of a successful return, for every configuration, transport and
  schedule: \<open>connected\<close> has been closed and a \<open>c.Subscribe\<close> call has returned (with or
  without an error).
\<close>

lemma step_success_needs_handshake:
  assumes "(caller s = C_Returned None \<longrightarrow> connected_closed s) \<and>
           (connected_closed s \<longrightarrow> sub_results s \<noteq> []) \<and>
           (loop s = L_Close \<longrightarrow> sub_results s \<noteq> [])"
    and "step maxSub timeout cfg ev s = Some s'"
  shows "(caller s' = C_Returned None \<longrightarrow> connected_closed s') \<and>
         (connected_closed s' \<longrightarrow> sub_results s' \<noteq> []) \<and>
         (loop s' = L_Close \<longrightarrow> sub_results s' \<noteq> [])"
  using assms
  by (cases ev)
     (auto simp: step_def split: if_splits sum.splits option.splits loop_pc.splits prod.splits)

lemma run_success_needs_handshake:
  "(caller s = C_Returned None \<longrightarrow> connected_closed s) \<and>
   (connected_closed s \<longrightarrow> sub_results s \<noteq> []) \<and>
   (loop s = L_Close \<longrightarrow> sub_results s \<noteq> []) \<Longrightarrow>
   run maxSub timeout cfg evs s = Some s' \<Longrightarrow>
   (caller s' = C_Returned None \<longrightarrow> connected_closed s') \<and>
   (connected_closed s' \<longrightarrow> sub_results s' \<noteq> []) \<and>
   (loop s' = L_Close \<longrightarrow> sub_results s' \<noteq> [])"
proof (induction evs arbitrary: s)
  case Nil
  then show ?case by simp
next
  case (Cons ev evs)
  from Cons.prems(2) obtain s1 where 1: "step maxSub timeout cfg ev s = Some s1"
    and 2: "run maxSub timeout cfg evs s1 = Some s'"
    by (auto split: option.splits)
  from step_success_needs_handshake [OF Cons.prems(1) 1]
  have "(caller s1 = C_Returned None \<longrightarrow> connected_closed s1) \<and>
        (connected_closed s1 \<longrightarrow> sub_results s1 \<noteq> []) \<and>
        (loop s1 = L_Close \<longrightarrow> sub_results s1 \<noteq> [])" .
  from Cons.IH [OF this 2] show ?case .
qed

lemma Start_success_needs_handshake:
  assumes "run maxSub timeout cfg evs initial = Some s" and "caller s = C_Returned None"
  shows "connected_closed s \<and> sub_results s \<noteq> []"
proof -
  have "(caller initial = C_Returned None \<longrightarrow> connected_closed initial) \<and>
        (connected_closed initial \<longrightarrow> sub_results initial \<noteq> []) \<and>
        (loop initial = L_Close \<longrightarrow> sub_results initial \<noteq> [])"
    by (simp add: initial_def)
  from run_success_needs_handshake [OF this assms(1)] assms(2) show ?thesis by blast
qed

text \<open>
  C4 (failing input).  On the accepted configuration, after a first handshake and the
  caller's successful return, the monitor sees the loss of liveness and hands \<open>reload\<close> to
  the loop; the loop sleeps, creates a second client, connects and subscribes again, and
  then executes \<open>close(connected)\<close> on the channel it closed in the first iteration: the
  process panics.  The first reconnection already ends the loop.
\<close>

theorem Start_second_handshake_panics:
  "map_option caller
     (run (3 :: 64 word) 10 good_config
        (handshake always_succeeds @ [Caller_Connected] @ reconnect) initial)
     = Some (C_Returned None) \<and>
   map_option clients
     (run (3 :: 64 word) 10 good_config
        (handshake always_succeeds @ [Caller_Connected] @ reconnect) initial)
     = Some 2 \<and>
   map_option sub_results
     (run (3 :: 64 word) 10 good_config
        (handshake always_succeeds @ [Caller_Connected] @ reconnect) initial)
     = Some [None, None] \<and>
   map_option crashed
     (run (3 :: 64 word) 10 good_config
        (handshake always_succeeds @ [Caller_Connected] @ reconnect) initial)
     = Some (Some CloseOfClosedChannel)"
  by (simp add: handshake_def reconnect_def step_def initial_def
      name_and_addr_good_config GetBrokerTopicName_good_config Name_good_config always_succeeds_run)

text \<open>
  Once \<open>connected\<close> is closed and the loop is past line 68, the loop never reaches line 68
  again, whatever the schedule, the configuration and the transport: no later iteration
  gets to start a heartbeat monitor.
\<close>

lemma step_no_second_monitor:
  assumes "connected_closed s \<and> loop s \<noteq> L_Spawn" and "step maxSub timeout cfg ev s = Some s'"
  shows "connected_closed s' \<and> loop s' \<noteq> L_Spawn"
  using assms
  by (cases ev)
     (auto simp: step_def split: if_splits sum.splits option.splits loop_pc.splits prod.splits)

lemma run_no_second_monitor:
  "connected_closed s \<and> loop s \<noteq> L_Spawn \<Longrightarrow> run maxSub timeout cfg evs s = Some s' \<Longrightarrow>
   connected_closed s' \<and> loop s' \<noteq> L_Spawn"
proof (induction evs arbitrary: s)
  case Nil
  then show ?case by simp
next
  case (Cons ev evs)
  from Cons.prems(2) obtain s1 where 1: "step maxSub timeout cfg ev s = Some s1"
    and 2: "run maxSub timeout cfg evs s1 = Some s'"
    by (auto split: option.splits)
  from step_no_second_monitor [OF Cons.prems(1) 1]
  have "connected_closed s1 \<and> loop s1 \<noteq> L_Spawn" .
  from Cons.IH [OF this 2] show ?case .
qed

text \<open>The caller's blocked send is never completed: nothing receives from \<open>errors\<close>.\<close>

lemma step_keeps_timeout:
  assumes "caller s = C_SendTimeout e" and "step maxSub timeout cfg ev s = Some s'"
  shows "caller s' = C_SendTimeout e"
  using assms
  by (cases ev)
     (auto simp: step_def split: if_splits sum.splits option.splits loop_pc.splits prod.splits)

lemma run_keeps_timeout:
  "caller s = C_SendTimeout e \<Longrightarrow> run maxSub timeout cfg evs s = Some s' \<Longrightarrow>
   caller s' = C_SendTimeout e"
proof (induction evs arbitrary: s)
  case Nil
  then show ?case by simp
next
  case (Cons ev evs)
  from Cons.prems(2) obtain s1 where 1: "step maxSub timeout cfg ev s = Some s1"
    and 2: "run maxSub timeout cfg evs s1 = Some s'"
    by (auto split: option.splits)
  from step_keeps_timeout [OF Cons.prems(1) 1] have "caller s1 = C_SendTimeout e" .
  from Cons.IH [OF this 2] show ?case .
qed

lemma run_crashed:
  "crashed s \<noteq> None \<Longrightarrow> run maxSub timeout cfg evs s = Some s' \<Longrightarrow> s' = s"
  by (cases evs) (auto simp: step_def)

text \<open>
  C2 (failing behaviour).  In whatever state the caller's \<open>select\<close> takes the timeout
  branch, and whatever happens afterwards, the caller never returns from \<open>Start\<close>: unless
  the process has panicked, it stays blocked in the send of the timeout error on
  \<open>errors\<close>, which no goroutine receives.  The timeout error is built but never returned.
\<close>

theorem Start_timeout_never_returns:
  assumes "step maxSub timeout cfg Caller_Timeout s = Some s1"
    and "run maxSub timeout cfg evs s1 = Some s2"
  shows "caller s2 \<noteq> C_Returned r \<and>
         (crashed s2 = None \<longrightarrow>
            (\<exists>name addr. caller s2 = C_SendTimeout (InitialTimeout name addr timeout)))"
proof (cases "name_and_addr cfg")
  case (Inl p)
  with assms(1) have "crashed s1 \<noteq> None" and "caller s1 = C_Select"
    by (auto simp: step_def split: if_splits)
  with run_crashed [OF this(1) assms(2)] show ?thesis by simp
next
  case (Inr na)
  with assms(1) have "caller s1 = C_SendTimeout (InitialTimeout (fst na) (snd na) timeout)"
    by (cases na) (auto simp: step_def split: if_splits)
  from run_keeps_timeout [OF this assms(2)] show ?thesis by simp
qed

theorem Start_timeout_never_returns_witness:
  "step (3 :: 64 word) 10 good_config Caller_Timeout (initial\<lparr>loop := L_Connect\<rparr>)
     = Some (initial\<lparr>loop := L_Connect,
              caller := C_SendTimeout
                (InitialTimeout ''worker'' ''tcp://10.0.0.1:1883?timeout=10s'' 10)\<rparr>) \<and>
   run (3 :: 64 word) 10 good_config [Connect_Done (Some ''unreachable'')]
       (initial\<lparr>loop := L_Connect,
          caller := C_SendTimeout
            (InitialTimeout ''worker'' ''tcp://10.0.0.1:1883?timeout=10s'' 10)\<rparr>)
     = Some (initial\<lparr>loop := L_SendError (ConnectFailed ''unreachable''),
              caller := C_SendTimeout
                (InitialTimeout ''worker'' ''tcp://10.0.0.1:1883?timeout=10s'' 10)\<rparr>) \<and>
   caller (initial\<lparr>loop := L_SendError (ConnectFailed ''unreachable''),
             caller := C_SendTimeout
               (InitialTimeout ''worker'' ''tcp://10.0.0.1:1883?timeout=10s'' 10)\<rparr>)
     \<noteq> C_Returned (Some (InitialTimeout ''worker'' ''tcp://10.0.0.1:1883?timeout=10s'' 10))"
proof -
  have 1: "step (3 :: 64 word) 10 good_config Caller_Timeout (initial\<lparr>loop := L_Connect\<rparr>)
     = Some (initial\<lparr>loop := L_Connect,
              caller := C_SendTimeout
                (InitialTimeout ''worker'' ''tcp://10.0.0.1:1883?timeout=10s'' 10)\<rparr>)"
    by (simp add: step_def initial_def name_and_addr_good_config)
  have 2: "run (3 :: 64 word) 10 good_config [Connect_Done (Some ''unreachable'')]
       (initial\<lparr>loop := L_Connect,
          caller := C_SendTimeout
            (InitialTimeout ''worker'' ''tcp://10.0.0.1:1883?timeout=10s'' 10)\<rparr>)
     = Some (initial\<lparr>loop := L_SendError (ConnectFailed ''unreachable''),
              caller := C_SendTimeout
                (InitialTimeout ''worker'' ''tcp://10.0.0.1:1883?timeout=10s'' 10)\<rparr>)"
    by (simp add: step_def initial_def)
  from Start_timeout_never_returns [OF 1 2,
      of "Some (InitialTimeout ''worker'' ''tcp://10.0.0.1:1883?timeout=10s'' 10)"] 1 2
  show ?thesis by blast
qed

section \<open>Unchecked type assertions\<close>

lemma Name_panics_ops:
  fixes maxRetryAttempts :: "'w::len word"
  assumes "Name cfg = Inl p"
  shows "Validate acts cfg = Inl p"
    and "Stop G cfg connected ue = ([], Inl p)"
    and "BrokerHandler cfg NewEvent msg = ([], Inl p)"
    and "0 \<le>s maxRetryAttempts \<Longrightarrow> Subscribe cfg t topic maxRetryAttempts = Some ([], Inl p)"
    and "step maxSub timeout cfg Loop_Begin initial = Some (initial\<lparr>crashed := Some p\<rparr>)"
    and "step maxSub timeout cfg ev initial = Some s \<Longrightarrow> crashed s = Some p"
proof -
  show "Validate acts cfg = Inl p" using assms by (simp add: Validate_def then_do_def)
  show "Stop G cfg connected ue = ([], Inl p)" using assms by (simp add: Stop_def)
  show "BrokerHandler cfg NewEvent msg = ([], Inl p)" using assms by (simp add: BrokerHandler_def)
  show "Subscribe cfg t topic maxRetryAttempts = Some ([], Inl p)" if "0 \<le>s maxRetryAttempts"
    using assms that unfolding Subscribe_def by (subst subscribe_loop.simps) simp
  have na: "name_and_addr cfg = Inl p" using assms by (simp add: name_and_addr_def then_do_def)
  show "step maxSub timeout cfg Loop_Begin initial = Some (initial\<lparr>crashed := Some p\<rparr>)"
    using na by (simp add: step_def initial_def)
  show "crashed s = Some p" if "step maxSub timeout cfg ev initial = Some s"
    using that na by (cases ev) (auto simp: step_def initial_def split: if_splits)
qed

lemma Start_init_cases: "(\<exists>q. Start_init cfg = Inl q) \<or> Start_init cfg = Inr initial"
  by (auto simp: Start_init_def then_do_def split: sum.splits)

text \<open>
  C10 (amended).  Each accessor returns a value exactly when the configuration holds what
  it asserts (for the four broker accessors a \<open>connection\<close> map with the string fields
  they read, for \<open>Name\<close> a string \<open>name\<close>) and panics otherwise.  When \<open>name\<close> is not a
  string, \<open>Validate\<close>, \<open>Stop\<close> and \<open>BrokerHandler\<close> panic before any other effect;
  \<open>Subscribe\<close> panics in its first iteration whenever \<open>maxRetryAttempts\<close> is not negative;
  and \<open>Start\<close> panics either in the caller's setup or, once the loop is started, in the
  first statement of whichever goroutine moves first.
\<close>

theorem unchecked_assertions_panic:
  fixes maxRetryAttempts :: "'w::len word"
  shows
  "((\<exists>a. GetBrokerAddr cfg = Inr a) \<longleftrightarrow>
      (\<exists>m n a. cfg ''connection'' = Some (VMap m) \<and> map_of m ''network'' = Some (VString n) \<and>
               map_of m ''address'' = Some (VString a))) \<and>
   ((\<exists>c. GetBrokerCredentials cfg = Inr c) \<longleftrightarrow>
      (\<exists>m u w. cfg ''connection'' = Some (VMap m) \<and> map_of m ''username'' = Some (VString u) \<and>
               map_of m ''password'' = Some (VString w))) \<and>
   ((\<exists>i. GetBrokerClientID cfg = Inr i) \<longleftrightarrow>
      (\<exists>m i. cfg ''connection'' = Some (VMap m) \<and> map_of m ''clientId'' = Some (VString i))) \<and>
   ((\<exists>t. GetBrokerTopicName cfg = Inr t) \<longleftrightarrow>
      (\<exists>m t. cfg ''connection'' = Some (VMap m) \<and> map_of m ''topic'' = Some (VString t))) \<and>
   ((\<exists>n. Name cfg = Inr n) \<longleftrightarrow> (\<exists>n. cfg ''name'' = Some (VString n))) \<and>
   (\<forall>p. Name cfg = Inl p \<longrightarrow>
      Validate acts cfg = Inl p \<and>
      Stop G cfg connected ue = ([], Inl p) \<and>
      BrokerHandler cfg NewEvent msg = ([], Inl p) \<and>
      (0 \<le>s maxRetryAttempts \<longrightarrow> Subscribe cfg t topic maxRetryAttempts = Some ([], Inl p)) \<and>
      ((\<exists>q. Start_init cfg = Inl q) \<or>
       Start_init cfg = Inr initial \<and>
       step maxRetryAttempts timeout cfg Loop_Begin initial = Some (initial\<lparr>crashed := Some p\<rparr>) \<and>
       (\<forall>ev s. step maxRetryAttempts timeout cfg ev initial = Some s \<longrightarrow> crashed s = Some p)))"
proof (intro conjI allI impI)
  show "(\<exists>a. GetBrokerAddr cfg = Inr a) \<longleftrightarrow>
      (\<exists>m n a. cfg ''connection'' = Some (VMap m) \<and> map_of m ''network'' = Some (VString n) \<and>
               map_of m ''address'' = Some (VString a))"
    by (auto simp: GetBrokerAddr_def then_do_Inr connection_map_Inr assert_string_Inr)
  show "(\<exists>c. GetBrokerCredentials cfg = Inr c) \<longleftrightarrow>
      (\<exists>m u w. cfg ''connection'' = Some (VMap m) \<and> map_of m ''username'' = Some (VString u) \<and>
               map_of m ''password'' = Some (VString w))"
    by (auto simp: GetBrokerCredentials_def then_do_Inr connection_map_Inr assert_string_Inr)
  show "(\<exists>i. GetBrokerClientID cfg = Inr i) \<longleftrightarrow>
      (\<exists>m i. cfg ''connection'' = Some (VMap m) \<and> map_of m ''clientId'' = Some (VString i))"
    by (auto simp: GetBrokerClientID_def then_do_Inr connection_map_Inr assert_string_Inr)
  show "(\<exists>t. GetBrokerTopicName cfg = Inr t) \<longleftrightarrow>
      (\<exists>m t. cfg ''connection'' = Some (VMap m) \<and> map_of m ''topic'' = Some (VString t))"
    by (auto simp: GetBrokerTopicName_def then_do_Inr connection_map_Inr assert_string_Inr)
  show "(\<exists>n. Name cfg = Inr n) \<longleftrightarrow> (\<exists>n. cfg ''name'' = Some (VString n))"
    by (simp add: Name_def assert_string_Inr)
next
  fix p assume p: "Name cfg = Inl p"
  show "Validate acts cfg = Inl p" by (rule Name_panics_ops(1) [OF p])
  show "Stop G cfg connected ue = ([], Inl p)" by (rule Name_panics_ops(2) [OF p])
  show "BrokerHandler cfg NewEvent msg = ([], Inl p)" by (rule Name_panics_ops(3) [OF p])
  show "Subscribe cfg t topic maxRetryAttempts = Some ([], Inl p)" if "0 \<le>s maxRetryAttempts"
    by (rule Name_panics_ops(4) [OF p that])
  show "(\<exists>q. Start_init cfg = Inl q) \<or>
       Start_init cfg = Inr initial \<and>
       step maxRetryAttempts timeout cfg Loop_Begin initial = Some (initial\<lparr>crashed := Some p\<rparr>) \<and>
       (\<forall>ev s. step maxRetryAttempts timeout cfg ev initial = Some s \<longrightarrow> crashed s = Some p)"
    using Start_init_cases [of cfg] Name_panics_ops(5,6) [OF p] by blast
qed

lemma Name_nameless_config: "Name nameless_config = Inl (NotAString ''name'')"
  by (simp add: Name_def nameless_config_def assert_string_def)

lemma Start_init_nameless_config: "Start_init nameless_config = Inr initial"
  by (simp add: Start_init_def GetBrokerAddr_def GetBrokerClientID_def GetBrokerCredentials_def
      nameless_config_def good_connection_def connection_map_def assert_string_def then_do_def)

theorem unchecked_assertions_panic_witness:
  "Name nameless_config = Inl (NotAString ''name'') \<and>
   Validate [''tcp'', ''ssl'', ''ws''] nameless_config = Inl (NotAString ''name'') \<and>
   Stop 5 nameless_config True None = ([], Inl (NotAString ''name'')) \<and>
   BrokerHandler nameless_config decode_nonempty
       \<lparr>msg_topic = ''sensors/1'', msg_payload = ''21.5''\<rparr> = ([], Inl (NotAString ''name'')) \<and>
   0 \<le>s (3 :: 64 word) \<and>
   Subscribe nameless_config always_succeeds ''sensors/1'' (3 :: 64 word)
     = Some ([], Inl (NotAString ''name'')) \<and>
   Start_init nameless_config = Inr initial \<and>
   step (3 :: 64 word) 10 nameless_config Loop_Begin initial
     = Some (initial\<lparr>crashed := Some (NotAString ''name'')\<rparr>)"
proof -
  have pos: "0 \<le>s (3 :: 64 word)" by (simp add: word_sle_eq)
  have no: "\<not> (\<exists>q. Start_init nameless_config = Inl q)"
    by (simp add: Start_init_nameless_config)
  from unchecked_assertions_panic [of nameless_config "[''tcp'', ''ssl'', ''ws'']" 5 True None
      decode_nonempty "\<lparr>msg_topic = ''sensors/1'', msg_payload = ''21.5''\<rparr>" "3 :: 64 word"
      always_succeeds "''sensors/1''" 10]
    Name_nameless_config pos no Start_init_nameless_config
  show ?thesis by blast
qed

text \<open>
  C10 (counterexample).  On a configuration without a \<open>name\<close>, \<open>Subscribe\<close> with a negative
  budget does not panic: it returns \<open>nil\<close>, since the log line that reads the name is
  inside the loop body, which never runs.
\<close>

theorem Subscribe_without_name_returns:
  "Name nameless_config = Inl (NotAString ''name'') \<and>
   Subscribe nameless_config always_fails ''sensors/1'' (- 1 :: 64 word) = Some ([], Inr None)"
  by (simp add: Name_nameless_config Subscribe_def subscribe_loop.simps word_sle_eq)

end
